theory Spec2Isabelle
  imports Complex_Main
begin

section \<open>VolleyVision: calibration, metric conversion and per-rep metrics\<close>

text \<open>
  A shallow embedding of the computational core of \<^verbatim>\<open>sketch.js\<close>: the calibration
  model (\<^verbatim>\<open>finalizeCalibration\<close>), the two converters (\<^verbatim>\<open>metersAboveNetAtPoint\<close>,
  \<^verbatim>\<open>metersHorizDistance\<close>), the per-rep metrics (\<^verbatim>\<open>computeAllRepMetrics\<close>) and
  the reductions at the head of \<^verbatim>\<open>renderStatsTable\<close>. Drawing, video playback and
  the HTML of the table are not modelled.
\<close>

subsection \<open>JavaScript numbers\<close>

text \<open>
  A JavaScript number is a finite value, \<^verbatim>\<open>Infinity\<close>, \<^verbatim>\<open>-Infinity\<close> or
  \<^verbatim>\<open>NaN\<close>; a finite value is the real number it denotes. An arithmetic operation on
  finite values computes the exact result and rounds it to a number. The rounding is the
  parameter \<open>fl\<close> of every operation and of every function of the program. Two roundings
  are used below: \<open>fl64\<close>, the round-to-nearest-even of IEEE binary64 with its overflow
  and its gradual underflow, which is what JavaScript computes, and \<open>Num\<close>, the exact
  arithmetic in which no result is rounded. Zero is unsigned and behaves as \<^verbatim>\<open>+0\<close>:
  the only division of the program whose divisor can be zero is the slope's, and its
  divisor is a difference \<^verbatim>\<open>a - a\<close> of equal finite numbers, which is \<^verbatim>\<open>+0\<close>.
\<close>

datatype jsnum = Num real | PosInf | NegInf | NaN

type_synonym rounding = "real \<Rightarrow> jsnum"

text \<open>
  IEEE binary64. \<open>expo_aux n x\<close> is the exponent \<open>e\<close> with \<open>2^e \<le> x < 2^(e+1)\<close> of a
  positive \<open>x\<close>, found in at most \<open>n\<close> doublings or halvings; \<open>binade\<close> bounds it below by
  the exponent -1022 of the subnormal numbers, so that the spacing of the doubles around
  \<open>x\<close> is \<open>spacing (binade x)\<close>, that is 2 to the power \<open>binade x - 52\<close>. \<open>fl64 x\<close> is the
  multiple of that spacing nearest to \<open>x\<close>, the even one on a tie, and an infinity when
  that multiple reaches \<open>2^1024\<close>.
\<close>

fun expo_aux :: "nat \<Rightarrow> real \<Rightarrow> int" where
  "expo_aux 0 x = 0"
| "expo_aux (Suc n) x =
     (if x < 1 then expo_aux n (2 * x) - 1
      else if 2 \<le> x then expo_aux n (x / 2) + 1
      else 0)"

definition binade :: "real \<Rightarrow> int" where
  "binade x = max (- 1022) (expo_aux 1100 \<bar>x\<bar>)"

definition spacing :: "int \<Rightarrow> real" where
  "spacing e = (if 52 \<le> e then 2 ^ nat (e - 52) else 1 / 2 ^ nat (52 - e))"

definition round_even :: "real \<Rightarrow> int" where
  "round_even q =
     (let n = \<lfloor>q\<rfloor>; d = q - of_int n
      in if d < 1 / 2 then n else if 1 / 2 < d then n + 1 else if even n then n else n + 1)"

definition fl64 :: rounding where
  "fl64 x =
     (if x = 0 then Num 0
      else let u = spacing (binade x); r = of_int (round_even (x / u)) * u
           in if 2 ^ 1024 \<le> \<bar>r\<bar> then (if 0 < x then PosInf else NegInf) else Num r)"

fun isFinite :: "jsnum \<Rightarrow> bool" where
  "isFinite (Num _) = True"
| "isFinite _ = False"

fun num_val :: "jsnum \<Rightarrow> real" where
  "num_val (Num r) = r"
| "num_val _ = 0"

fun jneg :: "jsnum \<Rightarrow> jsnum" where
  "jneg (Num a) = Num (- a)"
| "jneg PosInf = NegInf"
| "jneg NegInf = PosInf"
| "jneg NaN = NaN"

fun jadd :: "rounding \<Rightarrow> jsnum \<Rightarrow> jsnum \<Rightarrow> jsnum" where
  "jadd fl NaN _ = NaN"
| "jadd fl _ NaN = NaN"
| "jadd fl (Num a) (Num b) = fl (a + b)"
| "jadd fl PosInf NegInf = NaN"
| "jadd fl NegInf PosInf = NaN"
| "jadd fl PosInf _ = PosInf"
| "jadd fl _ PosInf = PosInf"
| "jadd fl NegInf _ = NegInf"
| "jadd fl _ NegInf = NegInf"

definition jsub :: "rounding \<Rightarrow> jsnum \<Rightarrow> jsnum \<Rightarrow> jsnum" where
  "jsub fl a b = jadd fl a (jneg b)"

text \<open>The sign of a number that is not \<^verbatim>\<open>NaN\<close>: 1, 0 or -1.\<close>

fun jsign :: "jsnum \<Rightarrow> int" where
  "jsign (Num a) = (if 0 < a then 1 else if a < 0 then - 1 else 0)"
| "jsign PosInf = 1"
| "jsign NegInf = - 1"
| "jsign NaN = 0"

definition inf_of_sign :: "int \<Rightarrow> jsnum" where
  "inf_of_sign s = (if 0 < s then PosInf else if s < 0 then NegInf else NaN)"

fun jmul :: "rounding \<Rightarrow> jsnum \<Rightarrow> jsnum \<Rightarrow> jsnum" where
  "jmul fl NaN _ = NaN"
| "jmul fl _ NaN = NaN"
| "jmul fl (Num a) (Num b) = fl (a * b)"
| "jmul fl a b = inf_of_sign (jsign a * jsign b)"

fun jdiv :: "rounding \<Rightarrow> jsnum \<Rightarrow> jsnum \<Rightarrow> jsnum" where
  "jdiv fl NaN _ = NaN"
| "jdiv fl _ NaN = NaN"
| "jdiv fl (Num a) (Num b) = (if b = 0 then inf_of_sign (jsign (Num a)) else fl (a / b))"
| "jdiv fl (Num a) _ = Num 0"
| "jdiv fl a (Num b) = (if b < 0 then jneg a else a)"
| "jdiv fl _ _ = NaN"

fun jabs :: "jsnum \<Rightarrow> jsnum" where
  "jabs (Num a) = Num \<bar>a\<bar>"
| "jabs PosInf = PosInf"
| "jabs NegInf = PosInf"
| "jabs NaN = NaN"

text \<open>\<^verbatim>\<open>a > b\<close>: false as soon as one side is \<^verbatim>\<open>NaN\<close>.\<close>

fun jgt :: "jsnum \<Rightarrow> jsnum \<Rightarrow> bool" where
  "jgt NaN _ = False"
| "jgt _ NaN = False"
| "jgt (Num a) (Num b) = (b < a)"
| "jgt PosInf PosInf = False"
| "jgt PosInf _ = True"
| "jgt _ PosInf = False"
| "jgt NegInf _ = False"
| "jgt _ NegInf = True"

definition jlt :: "jsnum \<Rightarrow> jsnum \<Rightarrow> bool" where
  "jlt a b = jgt b a"

text \<open>\<^verbatim>\<open>Math.round\<close>: the nearest integer, a half rounded towards plus infinity.\<close>

fun jround :: "jsnum \<Rightarrow> jsnum" where
  "jround (Num a) = Num (of_int \<lfloor>a + 1 / 2\<rfloor>)"
| "jround v = v"

text \<open>
  Truthiness of a variable that holds \<^verbatim>\<open>null\<close> or a number: \<^verbatim>\<open>!v\<close> is true for
  \<^verbatim>\<open>null\<close>, for zero and for \<^verbatim>\<open>NaN\<close>.
\<close>

fun falsy :: "jsnum option \<Rightarrow> bool" where
  "falsy None = True"
| "falsy (Some (Num a)) = (a = 0)"
| "falsy (Some NaN) = True"
| "falsy (Some _) = False"

subsection \<open>Data\<close>

text \<open>
  The official net height in metres, \<^verbatim>\<open>const NET_HEIGHT_M = 2.43\<close>. The literal
  denotes the number \<open>fl NET_HEIGHT_M\<close>; the literals \<^verbatim>\<open>2\<close> and \<^verbatim>\<open>100\<close> of the
  program are integers and denote themselves.
\<close>

definition NET_HEIGHT_M :: real where
  "NET_HEIGHT_M = 243 / 100"

text \<open>
  A calibration point is \<^verbatim>\<open>{x, y}\<close>, a clicked point \<^verbatim>\<open>{x, y, t}\<close>. The fields are
  named \<open>p_x\<close>, \<open>p_y\<close>, \<open>p_t\<close> here, to keep \<open>x\<close>, \<open>y\<close> and \<open>t\<close> free for variables.
\<close>

record point =
  p_x :: jsnum
  p_y :: jsnum

record clicked = point +
  p_t :: jsnum

text \<open>
  The direction is one of the strings \<^verbatim>\<open>'->'\<close> (a right arrow), \<^verbatim>\<open>'<-'\<close> (a left
  arrow) and a bullet in the source.
\<close>

datatype direction = RightArrow | LeftArrow | Bullet

text \<open>
  A rep. The four derived fields are absent until the metrics are computed; \<open>None\<close>
  stands for both \<^verbatim>\<open>undefined\<close> and \<^verbatim>\<open>null\<close>, which the source never tells apart
  (it tests with \<^verbatim>\<open>!= null\<close>).
\<close>

record rep =
  points :: "clicked list"
  color :: "nat list"
  peakM :: "jsnum option"
  aboveNetCM :: "jsnum option"
  widthM :: "jsnum option"
  direction :: "direction option"

record calib =
  LB :: "point option"
  LT :: "point option"
  RB :: "point option"
  RT :: "point option"

text \<open>The top tape \<^verbatim>\<open>{m, b}\<close> of \<^verbatim>\<open>y = m*x + b\<close>, with fields \<open>ln_m\<close> and \<open>ln_b\<close>.\<close>

record line =
  ln_m :: jsnum
  ln_b :: jsnum

text \<open>The global variables the core reads and writes.\<close>

record session =
  calibPts :: calib
  pixelsPerMeter :: "jsnum option"
  topLine :: "line option"
  trails :: "rep list"

datatype js_error = TypeError

subsection \<open>Calibration\<close>

text \<open>
  \<^verbatim>\<open>finalizeCalibration\<close> reads the four points and assigns \<^verbatim>\<open>pixelsPerMeter\<close> and
  \<^verbatim>\<open>topLine\<close>. Reading a field of a point that is still \<^verbatim>\<open>null\<close> throws a
  TypeError, before anything is assigned; the function has no other way to fail.
\<close>

definition finalizeCalibration :: "rounding \<Rightarrow> session \<Rightarrow> js_error + session" where
  "finalizeCalibration fl st =
     (case (LB (calibPts st), LT (calibPts st), RB (calibPts st), RT (calibPts st)) of
        (Some lb, Some lt, Some rb, Some rt) \<Rightarrow>
          (let hLeft = jabs (jsub fl (p_y lt) (p_y lb));
               hRight = jabs (jsub fl (p_y rt) (p_y rb));
               hAvgPx = jdiv fl (jadd fl hLeft hRight) (Num 2);
               ppm = jdiv fl hAvgPx (fl NET_HEIGHT_M);
               m' = jdiv fl (jsub fl (p_y rt) (p_y lt)) (jsub fl (p_x rt) (p_x lt));
               b' = jsub fl (p_y lt) (jmul fl m' (p_x lt))
           in Inr (st\<lparr>pixelsPerMeter := Some ppm, topLine := Some \<lparr>ln_m = m', ln_b = b'\<rparr>\<rparr>))
      | _ \<Rightarrow> Inl TypeError)"

subsection \<open>Converters\<close>

definition metersAboveNetAtPoint :: "rounding \<Rightarrow> session \<Rightarrow> jsnum \<Rightarrow> jsnum \<Rightarrow> jsnum option" where
  "metersAboveNetAtPoint fl st x y =
     (case (pixelsPerMeter st, topLine st) of
        (Some ppm, Some tline) \<Rightarrow>
          (if falsy (Some ppm) then None
           else let yTop = jadd fl (jmul fl (ln_m tline) x) (ln_b tline);
                    dyPx = jsub fl yTop y
                in Some (jdiv fl dyPx ppm))
      | _ \<Rightarrow> None)"

definition metersHorizDistance :: "rounding \<Rightarrow> session \<Rightarrow> clicked \<Rightarrow> clicked \<Rightarrow> jsnum option" where
  "metersHorizDistance fl st p1 p2 =
     (case pixelsPerMeter st of
        None \<Rightarrow> None
      | Some ppm \<Rightarrow>
          (if falsy (Some ppm) then None
           else let dxPx = jabs (jsub fl (p_x p2) (p_x p1))
                in Some (jdiv fl dxPx ppm)))"

subsection \<open>Metrics per rep\<close>

text \<open>
  The inner loop over the points of a rep: \<open>peak\<close> is \<^verbatim>\<open>peakAboveM\<close>, which starts
  at \<^verbatim>\<open>-Infinity\<close>.
\<close>

fun peakAboveLoop :: "rounding \<Rightarrow> session \<Rightarrow> clicked list \<Rightarrow> jsnum \<Rightarrow> jsnum" where
  "peakAboveLoop fl st [] peak = peak"
| "peakAboveLoop fl st (p # ps) peak =
     (case metersAboveNetAtPoint fl st (p_x p) (p_y p) of
        None \<Rightarrow> peakAboveLoop fl st ps peak
      | Some a \<Rightarrow> peakAboveLoop fl st ps (if jgt a peak then a else peak))"

text \<open>
  The body of the outer loop, for one rep. An array is truthy even when empty, so
  \<^verbatim>\<open>!rep.points\<close> is false and the first test is on the length alone.
\<close>

definition computeRepMetrics :: "rounding \<Rightarrow> session \<Rightarrow> rep \<Rightarrow> rep" where
  "computeRepMetrics fl st r =
     (if length (points r) < 2
      then r\<lparr>peakM := None, aboveNetCM := None, widthM := None, direction := None\<rparr>
      else
        let peakAboveM = peakAboveLoop fl st (points r) NegInf;
            r1 = (if \<not> isFinite peakAboveM
                  then r\<lparr>peakM := None, aboveNetCM := None\<rparr>
                  else r\<lparr>peakM := Some (jadd fl (fl NET_HEIGHT_M) peakAboveM),
                         aboveNetCM := Some (jround (jmul fl peakAboveM (Num 100)))\<rparr>);
            start = points r ! 0;
            end' = points r ! (length (points r) - 1);
            wM = metersHorizDistance fl st start end'
        in r1\<lparr>widthM := wM,
               direction := Some (if jgt (p_x end') (p_x start) then RightArrow
                                  else if jlt (p_x end') (p_x start) then LeftArrow
                                  else Bullet)\<rparr>)"

definition computeAllRepMetrics :: "rounding \<Rightarrow> session \<Rightarrow> session" where
  "computeAllRepMetrics fl st = st\<lparr>trails := map (computeRepMetrics fl st) (trails st)\<rparr>"

subsection \<open>Session summary\<close>

text \<open>
  \<^verbatim>\<open>renderStatsTable\<close> first reduces the reps to the best peak, the two sums and
  the two counts, then takes the means; the HTML it builds from them is not modelled.
  \<open>statsLoop rs i s\<close> is the \<^verbatim>\<open>for\<close> loop from index \<open>i\<close> on, \<open>rs\<close> being the reps
  still to visit.
\<close>

record stats =
  bestIdx :: int
  bestVal :: jsnum
  sumPeak :: jsnum
  nPeak :: nat
  sumWidth :: jsnum
  nWidth :: nat

definition stats0 :: stats where
  "stats0 = \<lparr>bestIdx = - 1, bestVal = NegInf, sumPeak = Num 0, nPeak = 0,
              sumWidth = Num 0, nWidth = 0\<rparr>"

definition peakStep :: "rounding \<Rightarrow> int \<Rightarrow> rep \<Rightarrow> stats \<Rightarrow> stats" where
  "peakStep fl i r s =
     (case peakM r of
        None \<Rightarrow> s
      | Some pk \<Rightarrow>
          (let s1 = (if jgt pk (bestVal s) then s\<lparr>bestVal := pk, bestIdx := i\<rparr> else s)
           in s1\<lparr>sumPeak := jadd fl (sumPeak s1) pk, nPeak := nPeak s1 + 1\<rparr>))"

definition widthStep :: "rounding \<Rightarrow> rep \<Rightarrow> stats \<Rightarrow> stats" where
  "widthStep fl r s =
     (case widthM r of
        None \<Rightarrow> s
      | Some w \<Rightarrow> s\<lparr>sumWidth := jadd fl (sumWidth s) w, nWidth := nWidth s + 1\<rparr>)"





text \<open>The number of reps before the first one whose peak is \<open>M\<close>.\<close>

definition firstAt :: "real \<Rightarrow> rep list \<Rightarrow> nat" where
  "firstAt M rs = length (takeWhile (\<lambda>r. peakM r \<noteq> Some (Num M)) rs)"

subsection \<open>Concrete inputs\<close>

text \<open>
  Points with finite coordinates, and the session as it stands when the fourth
  calibration click has been recorded and nothing has been computed yet.
\<close>

definition pt :: "real \<Rightarrow> real \<Rightarrow> point" where
  "pt u v = \<lparr>p_x = Num u, p_y = Num v\<rparr>"

definition click :: "real \<Rightarrow> real \<Rightarrow> real \<Rightarrow> clicked" where
  "click u v w = \<lparr>p_x = Num u, p_y = Num v, p_t = Num w\<rparr>"

definition clicked4 :: "point \<Rightarrow> point \<Rightarrow> point \<Rightarrow> point \<Rightarrow> session" where
  "clicked4 lb lt rb rt =
     \<lparr>calibPts = \<lparr>LB = Some lb, LT = Some lt, RB = Some rb, RT = Some rt\<rparr>,
      pixelsPerMeter = None, topLine = None, trails = []\<rparr>"

text \<open>
  The session after the four calibration clicks and \<^verbatim>\<open>finalizeCalibration\<close>, holding
  the reps \<open>rs\<close>.
\<close>

definition calibrated :: "rounding \<Rightarrow> point \<Rightarrow> point \<Rightarrow> point \<Rightarrow> point \<Rightarrow> rep list \<Rightarrow> session" where
  "calibrated fl lb lt rb rt rs =
     (case finalizeCalibration fl (clicked4 lb lt rb rt) of
        Inr st \<Rightarrow> st\<lparr>trails := rs\<rparr>
      | Inl e \<Rightarrow> (clicked4 lb lt rb rt)\<lparr>trails := rs\<rparr>)"

text \<open>A rep as \<^verbatim>\<open>keyPressed\<close> pushes it: points and a colour, no derived field yet.\<close>

definition new_rep :: "clicked list \<Rightarrow> rep" where
  "new_rep ps = \<lparr>points = ps, color = [255, 80, 80], peakM = None, aboveNetCM = None,
                  widthM = None, direction = None\<rparr>"

subsection \<open>Insufficient data\<close>

text \<open>
  C5. A rep with 0 or 1 points gets all four derived fields set to null, whatever the
  calibration and the rounding, and nothing else of the rep changes: the loop moves on
  to the next rep.
\<close>

theorem short_rep_all_null:
  assumes "length (points r) < 2"
  shows "computeRepMetrics fl st r =
           r\<lparr>peakM := None, aboveNetCM := None, widthM := None, direction := None\<rparr>"
  using assms by (simp add: computeRepMetrics_def)

text \<open>The scenario of a rep with the single point (400,150), after calibration.\<close>

theorem short_rep_all_null_witness:
  "length (points (new_rep [click 400 150 1])) < 2 \<and>
   computeRepMetrics Num (calibrated Num (pt 100 400) (pt 100 200) (pt 700 410) (pt 700 205) [])
       (new_rep [click 400 150 1]) =
     new_rep [click 400 150 1]"
  using short_rep_all_null [of "new_rep [click 400 150 1]" Num
      "calibrated Num (pt 100 400) (pt 100 200) (pt 700 410) (pt 700 205) []"]
  by (simp add: new_rep_def)

subsection \<open>The calibration model\<close>

text \<open>
  The theorems that give a continuous quantity as a formula over the reals (the scale
  factor, the line, an offset, a width, a mean) are stated in exact arithmetic, the
  rounding \<open>Num\<close>: in doubles the program returns these values up to the rounding error
  of its operations. A theorem stated with a rounding \<open>fl\<close> holds for every rounding,
  the doubles \<open>fl64\<close> among them.
\<close>

lemma NET_HEIGHT_M_pos: "0 < NET_HEIGHT_M"
  by (simp add: NET_HEIGHT_M_def)

lemma finalizeCalibration_Num:
  assumes "calibPts st = \<lparr>LB = Some (pt lbx lby), LT = Some (pt ltx lty),
                          RB = Some (pt rbx rby), RT = Some (pt rtx rty)\<rparr>"
  shows "finalizeCalibration Num st =
           Inr (st\<lparr>pixelsPerMeter := Some (Num ((\<bar>lty - lby\<bar> + \<bar>rty - rby\<bar>) / 2 / NET_HEIGHT_M)),
                   topLine := Some \<lparr>ln_m = jdiv Num (Num (rty - lty)) (Num (rtx - ltx)),
                                     ln_b = jsub Num (Num lty) (jmul Num (jdiv Num (Num (rty - lty)) (Num (rtx - ltx))) (Num ltx))\<rparr>\<rparr>)"
  using assms NET_HEIGHT_M_pos by (simp add: finalizeCalibration_def pt_def jsub_def Let_def)

lemma calibrated_Num:
  "calibrated Num (pt lbx lby) (pt ltx lty) (pt rbx rby) (pt rtx rty) rs =
     (clicked4 (pt lbx lby) (pt ltx lty) (pt rbx rby) (pt rtx rty))
       \<lparr>pixelsPerMeter := Some (Num ((\<bar>lty - lby\<bar> + \<bar>rty - rby\<bar>) / 2 / NET_HEIGHT_M)),
        topLine := Some \<lparr>ln_m = jdiv Num (Num (rty - lty)) (Num (rtx - ltx)),
                          ln_b = jsub Num (Num lty) (jmul Num (jdiv Num (Num (rty - lty)) (Num (rtx - ltx))) (Num ltx))\<rparr>,
        trails := rs\<rparr>"
  by (simp add: calibrated_def
      finalizeCalibration_Num [of _ lbx lby ltx lty rbx rby rtx rty] clicked4_def)

lemmas session_eval =
  calibrated_Num clicked4_def click_def new_rep_def NET_HEIGHT_M_def jsub_def jlt_def
  inf_of_sign_def

text \<open>
  C2. For four calibration points with finite coordinates and \<open>LT.x \<noteq> RT.x\<close>,
  \<^verbatim>\<open>finalizeCalibration\<close> returns normally with
  \<open>pixelsPerMeter = (|LT.y - LB.y| + |RT.y - RB.y|) / 2 / NET_HEIGHT_M\<close>,
  \<open>slope = (RT.y - LT.y) / (RT.x - LT.x)\<close> and \<open>intercept = LT.y - slope * LT.x\<close>.
  The reference height is the constant \<open>NET_HEIGHT_M = 2.43\<close>.
\<close>

theorem finalize_model:
  assumes "calibPts st = \<lparr>LB = Some (pt lbx lby), LT = Some (pt ltx lty),
                          RB = Some (pt rbx rby), RT = Some (pt rtx rty)\<rparr>"
    and "ltx \<noteq> rtx"
  shows "finalizeCalibration Num st =
           Inr (st\<lparr>pixelsPerMeter := Some (Num ((\<bar>lty - lby\<bar> + \<bar>rty - rby\<bar>) / 2 / NET_HEIGHT_M)),
                   topLine := Some \<lparr>ln_m = Num ((rty - lty) / (rtx - ltx)),
                                     ln_b = Num (lty - (rty - lty) / (rtx - ltx) * ltx)\<rparr>\<rparr>)"
  using assms(2) by (simp add: finalizeCalibration_Num [OF assms(1)] jsub_def)

text \<open>
  The scenario LB=(100,400), LT=(100,200), RB=(700,410), RT=(700,205):
  \<open>pixelsPerMeter = 202.5 / 2.43\<close>.
\<close>

theorem finalize_model_witness:
  "(100::real) \<noteq> 700 \<and>
   finalizeCalibration Num (clicked4 (pt 100 400) (pt 100 200) (pt 700 410) (pt 700 205)) =
     Inr ((clicked4 (pt 100 400) (pt 100 200) (pt 700 410) (pt 700 205))
            \<lparr>pixelsPerMeter := Some (Num ((2025 / 10) / (243 / 100))),
             topLine := Some \<lparr>ln_m = Num ((205 - 200) / (700 - 100)),
                               ln_b = Num (200 - (205 - 200) / (700 - 100) * 100)\<rparr>\<rparr>)"
  using finalize_model [of "clicked4 (pt 100 400) (pt 100 200) (pt 700 410) (pt 700 205)"
      100 400 100 200 700 410 700 205]
  by (simp add: clicked4_def NET_HEIGHT_M_def)

text \<open>
  C1, as stated: with \<open>LT.x = RT.x\<close> the operation should signal an error and return
  no model. At LB=(100,400), LT=(100,200), RB=(100,410), RT=(100,205) it returns
  normally, with a model whose slope is \<^verbatim>\<open>Infinity\<close> and whose intercept is
  \<^verbatim>\<open>-Infinity\<close>.
\<close>

theorem vertical_tape_counterexample:
  "p_x (pt 100 200) = p_x (pt 100 205) \<and>
   finalizeCalibration Num (clicked4 (pt 100 400) (pt 100 200) (pt 100 410) (pt 100 205)) =
     Inr ((clicked4 (pt 100 400) (pt 100 200) (pt 100 410) (pt 100 205))
            \<lparr>pixelsPerMeter := Some (Num (250 / 3)),
             topLine := Some \<lparr>ln_m = PosInf, ln_b = NegInf\<rparr>\<rparr>)"
  by (simp add: finalizeCalibration_def clicked4_def pt_def jsub_def NET_HEIGHT_M_def inf_of_sign_def)

text \<open>
  C1, amended. For four calibration points with finite coordinates and \<open>LT.x = RT.x\<close>,
  \<^verbatim>\<open>finalizeCalibration\<close> signals no error: it returns normally and stores a model
  whose slope is \<^verbatim>\<open>Infinity\<close> when \<open>RT.y > LT.y\<close>, \<^verbatim>\<open>-Infinity\<close> when
  \<open>RT.y < LT.y\<close> and \<^verbatim>\<open>NaN\<close> when \<open>RT.y = LT.y\<close>.
\<close>

theorem vertical_tape_model:
  assumes "calibPts st = \<lparr>LB = Some (pt lbx lby), LT = Some (pt ltx lty),
                          RB = Some (pt rbx rby), RT = Some (pt rtx rty)\<rparr>"
    and "ltx = rtx"
  shows "\<exists>st'. finalizeCalibration Num st = Inr st' \<and>
           pixelsPerMeter st' = Some (Num ((\<bar>lty - lby\<bar> + \<bar>rty - rby\<bar>) / 2 / NET_HEIGHT_M)) \<and>
           map_option ln_m (topLine st') =
             Some (if lty < rty then PosInf else if rty < lty then NegInf else NaN)"
  using assms(2) by (simp add: finalizeCalibration_Num [OF assms(1)] inf_of_sign_def)

theorem vertical_tape_model_witness:
  "(300::real) = 300 \<and>
   (\<exists>st'. finalizeCalibration Num (clicked4 (pt 300 250) (pt 300 250) (pt 300 250) (pt 300 250)) = Inr st' \<and>
      pixelsPerMeter st' = Some (Num 0) \<and> map_option ln_m (topLine st') = Some NaN)"
  using vertical_tape_model [of "clicked4 (pt 300 250) (pt 300 250) (pt 300 250) (pt 300 250)"
      300 250 300 250 300 250 300 250]
  by (simp add: clicked4_def)

subsection \<open>The converters\<close>

lemma metersAboveNetAtPoint_truthy:
  assumes "pixelsPerMeter st = Some p" and "\<not> falsy (Some p)" and "topLine st = Some l"
  shows "metersAboveNetAtPoint fl st x y =
           Some (jdiv fl (jsub fl (jadd fl (jmul fl (ln_m l) x) (ln_b l)) y) p)"
  using assms by (simp add: metersAboveNetAtPoint_def)

lemma metersAboveNetAtPoint_Num:
  assumes "pixelsPerMeter st = Some (Num p)" and "p \<noteq> 0"
    and "topLine st = Some \<lparr>ln_m = Num s, ln_b = Num i\<rparr>"
  shows "metersAboveNetAtPoint Num st (Num u) (Num v) = Some (Num ((s * u + i - v) / p))"
  using assms by (simp add: metersAboveNetAtPoint_def jsub_def)

lemma metersAboveNetAtPoint_falsy:
  assumes "falsy (pixelsPerMeter st) \<or> topLine st = None"
  shows "metersAboveNetAtPoint fl st x y = None"
  using assms by (auto simp: metersAboveNetAtPoint_def split: option.splits)

lemma metersHorizDistance_falsy:
  assumes "falsy (pixelsPerMeter st)"
  shows "metersHorizDistance fl st p1 p2 = None"
  using assms by (auto simp: metersHorizDistance_def split: option.splits)


text \<open>
  C3. With a scale factor that is neither zero nor \<^verbatim>\<open>NaN\<close> and a top line,
  \<^verbatim>\<open>metersAboveNetAtPoint\<close> returns \<open>(m * x + b - y) / pixelsPerMeter\<close>: in JavaScript
  arithmetic for all numbers and every rounding, and in exact arithmetic as the real
  number of that formula when the model and the point are finite. With no calibration
  model (\<^verbatim>\<open>pixelsPerMeter\<close> or \<^verbatim>\<open>topLine\<close> still \<^verbatim>\<open>null\<close>) it returns \<^verbatim>\<open>null\<close>.
\<close>

theorem vertical_offset_formula:
  "(\<forall>p l x y. pixelsPerMeter st = Some p \<and> \<not> falsy (Some p) \<and> topLine st = Some l \<longrightarrow>
      metersAboveNetAtPoint fl st x y =
        Some (jdiv fl (jsub fl (jadd fl (jmul fl (ln_m l) x) (ln_b l)) y) p)) \<and>
   (\<forall>p s i u v. pixelsPerMeter st = Some (Num p) \<and> p \<noteq> 0 \<and>
        topLine st = Some \<lparr>ln_m = Num s, ln_b = Num i\<rparr> \<longrightarrow>
      metersAboveNetAtPoint Num st (Num u) (Num v) = Some (Num ((s * u + i - v) / p))) \<and>
   (pixelsPerMeter st = None \<or> topLine st = None \<longrightarrow>
      (\<forall>x y. metersAboveNetAtPoint fl st x y = None))"
proof (intro conjI allI impI)
  fix p l x y
  assume "pixelsPerMeter st = Some p \<and> \<not> falsy (Some p) \<and> topLine st = Some l"
  then show "metersAboveNetAtPoint fl st x y =
      Some (jdiv fl (jsub fl (jadd fl (jmul fl (ln_m l) x) (ln_b l)) y) p)"
    by (simp add: metersAboveNetAtPoint_truthy)
next
  fix p s i u v
  assume "pixelsPerMeter st = Some (Num p) \<and> p \<noteq> 0 \<and>
      topLine st = Some \<lparr>ln_m = Num s, ln_b = Num i\<rparr>"
  then show "metersAboveNetAtPoint Num st (Num u) (Num v) = Some (Num ((s * u + i - v) / p))"
    by (simp add: metersAboveNetAtPoint_Num)
next
  fix x y
  assume "pixelsPerMeter st = None \<or> topLine st = None"
  then show "metersAboveNetAtPoint fl st x y = None"
    by (auto simp: metersAboveNetAtPoint_falsy)
qed

theorem vertical_offset_formula_witness:
  "metersAboveNetAtPoint Num (calibrated Num (pt 100 400) (pt 100 200) (pt 700 410) (pt 700 205) []) (Num 400) (Num 150) =
     Some (Num (63 / 100)) \<and>
   metersAboveNetAtPoint Num (calibrated Num (pt 100 400) (pt 100 200) (pt 700 410) (pt 700 205) []) PosInf (Num 150) =
     Some PosInf \<and>
   metersAboveNetAtPoint Num (clicked4 (pt 100 400) (pt 100 200) (pt 700 410) (pt 700 205))
       (Num 400) (Num 150) = None"
  using vertical_offset_formula
      [of "calibrated Num (pt 100 400) (pt 100 200) (pt 700 410) (pt 700 205) []" Num]
    vertical_offset_formula
      [of "clicked4 (pt 100 400) (pt 100 200) (pt 700 410) (pt 700 205)" Num]
  by (simp add: session_eval metersAboveNetAtPoint_def)

text \<open>
  C8. For a finite calibration model with \<open>pixelsPerMeter > 0\<close> and a fixed finite \<open>x\<close>,
  the vertical offset is a finite number that strictly decreases as the pixel \<open>y\<close>
  grows, and it is 0 at the point of the top line above \<open>x\<close>.
\<close>

theorem vertical_offset_decreasing:
  assumes "pixelsPerMeter st = Some (Num p)" and "0 < p"
    and "topLine st = Some \<lparr>ln_m = Num s, ln_b = Num i\<rparr>"
  shows "(\<forall>y1 y2. y1 < y2 \<longrightarrow>
            (\<exists>o1 o2. metersAboveNetAtPoint Num st (Num u) (Num y1) = Some (Num o1) \<and>
                      metersAboveNetAtPoint Num st (Num u) (Num y2) = Some (Num o2) \<and> o2 < o1)) \<and>
         metersAboveNetAtPoint Num st (Num u) (Num (s * u + i)) = Some (Num 0)"
  using assms by (simp add: metersAboveNetAtPoint_Num divide_strict_right_mono)

theorem vertical_offset_decreasing_witness:
  "(0::real) < 250 / 3 \<and> (150::real) < 175 \<and>
   metersAboveNetAtPoint Num (calibrated Num (pt 100 400) (pt 100 200) (pt 700 410) (pt 700 205) []) (Num 400) (Num 150) =
     Some (Num (63 / 100)) \<and>
   metersAboveNetAtPoint Num (calibrated Num (pt 100 400) (pt 100 200) (pt 700 410) (pt 700 205) []) (Num 400) (Num 175) =
     Some (Num (33 / 100)) \<and>
   metersAboveNetAtPoint Num (calibrated Num (pt 100 400) (pt 100 200) (pt 700 410) (pt 700 205) []) (Num 400) (Num (405 / 2)) =
     Some (Num 0)"
  using vertical_offset_decreasing [of "calibrated Num (pt 100 400) (pt 100 200) (pt 700 410) (pt 700 205) []"
      "250 / 3" "1 / 120" "1195 / 6" 400]
  by (simp add: session_eval metersAboveNetAtPoint_def)

text \<open>
  C10. When both measured spans are zero (\<open>LT.y = LB.y\<close> and \<open>RT.y = RB.y\<close>, finite
  coordinates), \<^verbatim>\<open>finalizeCalibration\<close> stores \<open>pixelsPerMeter = 0\<close>, and then both
  converters return \<^verbatim>\<open>null\<close> for every argument. More generally a converter returns
  \<^verbatim>\<open>null\<close> in every session whose scale factor is zero, as it does without a model,
  so the division by \<^verbatim>\<open>pixelsPerMeter\<close> is never reached with a zero divisor.
\<close>

theorem zero_scale_guard:
  assumes "calibPts st = \<lparr>LB = Some (pt lbx lby), LT = Some (pt ltx lty),
                          RB = Some (pt rbx rby), RT = Some (pt rtx rty)\<rparr>"
    and "lty = lby" and "rty = rby"
  shows "(\<exists>st'. finalizeCalibration Num st = Inr st' \<and> pixelsPerMeter st' = Some (Num 0) \<and>
            (\<forall>x y. metersAboveNetAtPoint Num st' x y = None) \<and>
            (\<forall>p1 p2. metersHorizDistance Num st' p1 p2 = None)) \<and>
         (\<forall>s x y p1 p2. pixelsPerMeter s = Some (Num 0) \<longrightarrow>
            metersAboveNetAtPoint Num s x y = None \<and> metersHorizDistance Num s p1 p2 = None)"
  using assms(2,3)
  by (simp add: finalizeCalibration_Num [OF assms(1)] metersAboveNetAtPoint_falsy
      metersHorizDistance_falsy)

theorem zero_scale_guard_witness:
  "(200::real) = 200 \<and> (205::real) = 205 \<and>
   (\<exists>st'. finalizeCalibration Num (clicked4 (pt 100 200) (pt 100 200) (pt 700 205) (pt 700 205)) = Inr st' \<and>
      pixelsPerMeter st' = Some (Num 0) \<and>
      metersAboveNetAtPoint Num st' (Num 400) (Num 150) = None \<and>
      metersHorizDistance Num st' (click 300 400 1) (click 500 420 2) = None)"
  using zero_scale_guard [of "clicked4 (pt 100 200) (pt 100 200) (pt 700 205) (pt 700 205)"
      100 200 100 200 700 205 700 205]
  by (auto simp: clicked4_def)

subsection \<open>Metrics of a rep with at least two points\<close>

lemma peakAboveLoop_Num:
  assumes "\<forall>q\<in>set ps. metersAboveNetAtPoint fl st (p_x q) (p_y q) = Some (Num (f q))"
  shows "peakAboveLoop fl st ps (Num a) = Num (Max (insert a (f ` set ps)))"
  using assms
proof (induction ps arbitrary: a)
  case Nil
  then show ?case by simp
next
  case (Cons q ps)
  have step: "peakAboveLoop fl st (q # ps) (Num a) = peakAboveLoop fl st ps (Num (max a (f q)))"
    using Cons.prems by (auto simp: max_def)
  have "Max (insert (max a (f q)) (f ` set ps)) = Max (insert a (insert (f q) (f ` set ps)))"
    by (cases "set ps = {}") (simp_all add: max.assoc)
  moreover have "peakAboveLoop fl st ps (Num (max a (f q))) =
      Num (Max (insert (max a (f q)) (f ` set ps)))"
    using Cons.prems by (intro Cons.IH) simp
  ultimately show ?case
    using step by simp
qed

lemma peakAboveLoop_NegInf:
  assumes "\<forall>q\<in>set ps. metersAboveNetAtPoint fl st (p_x q) (p_y q) = Some (Num (f q))"
    and "ps \<noteq> []"
  shows "peakAboveLoop fl st ps NegInf = Num (Max (f ` set ps))"
proof (cases ps)
  case Nil
  with assms(2) show ?thesis by simp
next
  case (Cons q qs)
  with assms(1) have "\<forall>q\<in>set qs. metersAboveNetAtPoint fl st (p_x q) (p_y q) = Some (Num (f q))"
    and "metersAboveNetAtPoint fl st (p_x q) (p_y q) = Some (Num (f q))"
    by simp_all
  then show ?thesis
    using Cons by (simp add: peakAboveLoop_Num)
qed

lemma peakAboveLoop_None:
  assumes "\<forall>q\<in>set ps. metersAboveNetAtPoint fl st (p_x q) (p_y q) = None"
  shows "peakAboveLoop fl st ps peak = peak"
  using assms by (induction ps) simp_all

lemma first_last_nth:
  assumes "2 \<le> length ps"
  shows "ps ! 0 = hd ps" and "ps ! (length ps - Suc 0) = last ps"
  using assms by (cases ps; simp add: last_conv_nth)+

text \<open>The evaluation of \<open>fl64\<close> at a rational number.\<close>

lemma expo_aux_unfold:
  "expo_aux n x =
     (if n = 0 then 0
      else if x < 1 then expo_aux (n - 1) (2 * x) - 1
      else if 2 \<le> x then expo_aux (n - 1) (x / 2) + 1
      else 0)"
  by (cases n) simp_all

lemmas fl64_eval = fl64_def binade_def spacing_def round_even_def expo_aux_unfold Let_def

text \<open>
  The calibration of the scenario in doubles: \<open>pixelsPerMeter\<close> is the double
  83.33333333333333, the slope the double 0.008333333333333333 and the intercept the
  double 199.16666666666666.
\<close>

lemma calibrated_fl64_scenario:
  "calibrated fl64 (pt 100 400) (pt 100 200) (pt 700 410) (pt 700 205) rs =
     (clicked4 (pt 100 400) (pt 100 200) (pt 700 410) (pt 700 205))
       \<lparr>pixelsPerMeter := Some (Num (5864062014805333 / 70368744177664)),
        topLine := Some \<lparr>ln_m = Num (4803839602528529 / 576460752303423488),
                          ln_b = Num (7007554107692373 / 35184372088832)\<rparr>,
        trails := rs\<rparr>"
  by (simp add: calibrated_def finalizeCalibration_def clicked4_def pt_def jsub_def
      NET_HEIGHT_M_def fl64_eval)

text \<open>The offsets of four clicks under that calibration, in doubles.\<close>

lemma offsets_fl64_scenario:
  "metersAboveNetAtPoint fl64
     (calibrated fl64 (pt 100 400) (pt 100 200) (pt 700 410) (pt 700 205) rs)
     (Num 100) (Num 400) = Some (Num (- (1351079888211149 / 562949953421312)))"
  "metersAboveNetAtPoint fl64
     (calibrated fl64 (pt 100 400) (pt 100 200) (pt 700 410) (pt 700 205) rs)
     (Num 400) (Num 150) = Some (Num (5674535530486825 / 9007199254740992))"
  "metersAboveNetAtPoint fl64
     (calibrated fl64 (pt 100 400) (pt 100 200) (pt 700 410) (pt 700 205) rs)
     (Num 450) (Num 150) = Some (Num (5719571526760529 / 9007199254740992))"
  "metersAboveNetAtPoint fl64
     (calibrated fl64 (pt 100 400) (pt 100 200) (pt 700 410) (pt 700 205) rs)
     (Num 700) (Num 380) = Some (Num (- (4728779608739021 / 2251799813685248)))"
  by (simp_all add: calibrated_fl64_scenario clicked4_def metersAboveNetAtPoint_def jsub_def
      fl64_eval)

lemma trails_calibrated [simp]: "trails (calibrated fl lb lt rb rt rs) = rs"
  by (simp add: calibrated_def clicked4_def split: sum.splits)

text \<open>
  C4. Take the rep at index \<open>i\<close> of the session, with at least 2 points, each of which
  has a defined, finite vertical offset \<open>f q\<close>: the value \<^verbatim>\<open>metersAboveNetAtPoint\<close>
  returns for it under the rounding in use. After \<^verbatim>\<open>computeAllRepMetrics\<close> the peak
  height of that rep is the sum \<^verbatim>\<open>NET_HEIGHT_M + peakAboveM\<close> and its height above the net
  is \<^verbatim>\<open>Math.round(peakAboveM * 100)\<close>, where \<^verbatim>\<open>peakAboveM\<close> is the maximum of the
  offsets \<open>f q\<close> over all points of the rep. The sum and the product are the program's:
  the exact sum and the exact product, rounded once. This holds for every rounding, the
  doubles of JavaScript and the exact arithmetic among them.
\<close>

theorem peak_height_is_max:
  assumes "i < length (trails st)"
    and "2 \<le> length (points (trails st ! i))"
    and "\<forall>q\<in>set (points (trails st ! i)).
           metersAboveNetAtPoint fl st (p_x q) (p_y q) = Some (Num (f q))"
  shows "peakM (trails (computeAllRepMetrics fl st) ! i) =
           Some (jadd fl (fl NET_HEIGHT_M) (Num (Max (f ` set (points (trails st ! i)))))) \<and>
         aboveNetCM (trails (computeAllRepMetrics fl st) ! i) =
           Some (jround (fl (Max (f ` set (points (trails st ! i))) * 100)))"
proof -
  let ?r = "trails st ! i"
  from assms(2) have ne: "points ?r \<noteq> []" by auto
  have peak: "peakAboveLoop fl st (points ?r) NegInf = Num (Max (f ` set (points ?r)))"
    using assms(3) ne by (rule peakAboveLoop_NegInf)
  have "trails (computeAllRepMetrics fl st) ! i = computeRepMetrics fl st ?r"
    using assms(1) by (simp add: computeAllRepMetrics_def)
  with assms(2) peak show ?thesis
    by (simp add: computeRepMetrics_def Let_def)
qed

text \<open>
  In doubles, after the calibration of the scenario. The rep through (400,150) peaks at
  the offset 0.63: its peak height is the double 3.06 and it is 63 cm above the net. The
  rep through (450,150) peaks at the double 0.6349999999999999, whose product with 100 is
  the double 63.49999999999999: its peak height is the double 3.065 and it is 63 cm above
  the net, not the 64 cm of the exact product 63.5.
\<close>

theorem peak_height_is_max_witness:
  "peakM (trails (computeAllRepMetrics fl64 (calibrated fl64 (pt 100 400) (pt 100 200) (pt 700 410) (pt 700 205)
      [new_rep [click 100 400 1, click 400 150 2, click 700 380 3],
       new_rep [click 100 400 4, click 450 150 5, click 700 380 6]])) ! 0) =
     Some (Num (6890507429876859 / 2251799813685248)) \<and>
   aboveNetCM (trails (computeAllRepMetrics fl64 (calibrated fl64 (pt 100 400) (pt 100 200) (pt 700 410) (pt 700 205)
      [new_rep [click 100 400 1, click 400 150 2, click 700 380 3],
       new_rep [click 100 400 4, click 450 150 5, click 700 380 6]])) ! 0) = Some (Num 63) \<and>
   peakM (trails (computeAllRepMetrics fl64 (calibrated fl64 (pt 100 400) (pt 100 200) (pt 700 410) (pt 700 205)
      [new_rep [click 100 400 1, click 400 150 2, click 700 380 3],
       new_rep [click 100 400 4, click 450 150 5, click 700 380 6]])) ! 1) =
     Some (Num (6901766428945285 / 2251799813685248)) \<and>
   aboveNetCM (trails (computeAllRepMetrics fl64 (calibrated fl64 (pt 100 400) (pt 100 200) (pt 700 410) (pt 700 205)
      [new_rep [click 100 400 1, click 400 150 2, click 700 380 3],
       new_rep [click 100 400 4, click 450 150 5, click 700 380 6]])) ! 1) = Some (Num 63)"
  using peak_height_is_max [of 0 "calibrated fl64 (pt 100 400) (pt 100 200) (pt 700 410) (pt 700 205)
      [new_rep [click 100 400 1, click 400 150 2, click 700 380 3],
       new_rep [click 100 400 4, click 450 150 5, click 700 380 6]]" fl64
      "\<lambda>q. num_val (the (metersAboveNetAtPoint fl64 (calibrated fl64 (pt 100 400) (pt 100 200) (pt 700 410) (pt 700 205)
        []) (p_x q) (p_y q)))"]
    peak_height_is_max [of 1 "calibrated fl64 (pt 100 400) (pt 100 200) (pt 700 410) (pt 700 205)
      [new_rep [click 100 400 1, click 400 150 2, click 700 380 3],
       new_rep [click 100 400 4, click 450 150 5, click 700 380 6]]" fl64
      "\<lambda>q. num_val (the (metersAboveNetAtPoint fl64 (calibrated fl64 (pt 100 400) (pt 100 200) (pt 700 410) (pt 700 205)
        []) (p_x q) (p_y q)))"]
  by (simp add: offsets_fl64_scenario new_rep_def click_def NET_HEIGHT_M_def fl64_eval)



text \<open>
  C7, as stated: when no point of a rep with at least 2 points has a defined offset, all
  four derived fields should stay null. Both points of the rep (300,400), (500,420) have
  no offset before any calibration, and none after a calibration whose two spans are
  zero (LB = LT = (100,200), RB = RT = (700,205), so \<open>pixelsPerMeter = 0\<close>); in both
  sessions the direction of the rep is set to the right arrow all the same.
\<close>

theorem undefined_offsets_counterexample:
  "metersAboveNetAtPoint Num (clicked4 (pt 100 400) (pt 100 200) (pt 700 410) (pt 700 205))
      (Num 300) (Num 400) = None \<and>
   metersAboveNetAtPoint Num (clicked4 (pt 100 400) (pt 100 200) (pt 700 410) (pt 700 205))
      (Num 500) (Num 420) = None \<and>
   direction (computeRepMetrics Num (clicked4 (pt 100 400) (pt 100 200) (pt 700 410) (pt 700 205))
      (new_rep [click 300 400 1, click 500 420 2])) = Some RightArrow \<and>
   metersAboveNetAtPoint Num (calibrated Num (pt 100 200) (pt 100 200) (pt 700 205) (pt 700 205) [])
      (Num 300) (Num 400) = None \<and>
   metersAboveNetAtPoint Num (calibrated Num (pt 100 200) (pt 100 200) (pt 700 205) (pt 700 205) [])
      (Num 500) (Num 420) = None \<and>
   direction (computeRepMetrics Num (calibrated Num (pt 100 200) (pt 100 200) (pt 700 205) (pt 700 205) [])
      (new_rep [click 300 400 1, click 500 420 2])) = Some RightArrow"
  by (simp add: session_eval computeRepMetrics_def metersAboveNetAtPoint_def
      metersHorizDistance_def Let_def)

text \<open>
  C7, amended. For a rep with at least 2 points none of which has a defined offset, the
  peak height and the height above the net are null, the width is null whenever the
  scale factor is missing, zero or \<^verbatim>\<open>NaN\<close>, and the direction is still set from the
  first and the last point.
\<close>

theorem undefined_offsets:
  assumes "2 \<le> length (points r)"
    and "\<forall>q\<in>set (points r). metersAboveNetAtPoint fl st (p_x q) (p_y q) = None"
  shows "peakM (computeRepMetrics fl st r) = None \<and>
         aboveNetCM (computeRepMetrics fl st r) = None \<and>
         (falsy (pixelsPerMeter st) \<longrightarrow> widthM (computeRepMetrics fl st r) = None) \<and>
         direction (computeRepMetrics fl st r) =
           Some (if jgt (p_x (last (points r))) (p_x (hd (points r))) then RightArrow
                 else if jlt (p_x (last (points r))) (p_x (hd (points r))) then LeftArrow
                 else Bullet)"
  using assms
  by (simp add: computeRepMetrics_def Let_def first_last_nth peakAboveLoop_None
      metersHorizDistance_falsy)

theorem undefined_offsets_witness:
  "peakM (computeRepMetrics Num (calibrated Num (pt 100 200) (pt 100 200) (pt 700 205) (pt 700 205) [])
      (new_rep [click 500 400 1, click 300 420 2])) = None \<and>
   aboveNetCM (computeRepMetrics Num (calibrated Num (pt 100 200) (pt 100 200) (pt 700 205) (pt 700 205) [])
      (new_rep [click 500 400 1, click 300 420 2])) = None \<and>
   widthM (computeRepMetrics Num (calibrated Num (pt 100 200) (pt 100 200) (pt 700 205) (pt 700 205) [])
      (new_rep [click 500 400 1, click 300 420 2])) = None \<and>
   direction (computeRepMetrics Num (calibrated Num (pt 100 200) (pt 100 200) (pt 700 205) (pt 700 205) [])
      (new_rep [click 500 400 1, click 300 420 2])) = Some LeftArrow"
  using undefined_offsets [of "new_rep [click 500 400 1, click 300 420 2]" Num
      "calibrated Num (pt 100 200) (pt 100 200) (pt 700 205) (pt 700 205) []"]
  by (simp add: session_eval metersAboveNetAtPoint_def)

subsection \<open>The session summary\<close>

lemma widthStep_peak_fields [simp]:
  "bestVal (widthStep Num r s) = bestVal s" "bestIdx (widthStep Num r s) = bestIdx s"
  "sumPeak (widthStep Num r s) = sumPeak s" "nPeak (widthStep Num r s) = nPeak s"
  by (simp_all add: widthStep_def split: option.splits)

lemma peakStep_width_fields [simp]:
  "sumWidth (peakStep Num i r s) = sumWidth s" "nWidth (peakStep Num i r s) = nWidth s"
  by (simp_all add: peakStep_def Let_def split: option.splits)

lemma peakStep_None [simp]: "peakM r = None \<Longrightarrow> peakStep Num i r s = s"
  by (simp add: peakStep_def)


lemma widthStep_None [simp]: "widthM r = None \<Longrightarrow> widthStep Num r s = s"
  by (simp add: widthStep_def)





lemma firstAt_simps [simp]:
  "firstAt M [] = 0"
  "firstAt M (r # rs) = (if peakM r \<noteq> Some (Num M) then Suc (firstAt M rs) else 0)"
  by (simp_all add: firstAt_def)







lemma stats0_fields [simp]:
  "bestIdx stats0 = - 1" "bestVal stats0 = NegInf" "sumPeak stats0 = Num 0" "nPeak stats0 = 0"
  "sumWidth stats0 = Num 0" "nWidth stats0 = 0"
  by (simp_all add: stats0_def)

text \<open>
  What \<^verbatim>\<open>computeAllRepMetrics\<close> leaves in the reps: a peak that is not null is finite
  (the \<^verbatim>\<open>isFinite\<close> test), and so is a width that is not null when the clicks have a
  finite \<open>x\<close>.
\<close>

lemma isFinite_cases:
  assumes "isFinite n"
  obtains v where "n = Num v"
  using assms by (cases n) simp_all

lemma computeRepMetrics_fields:
  "peakM (computeRepMetrics Num st r) =
     (if length (points r) < 2 \<or> \<not> isFinite (peakAboveLoop Num st (points r) NegInf) then None
      else Some (jadd Num (Num NET_HEIGHT_M) (peakAboveLoop Num st (points r) NegInf)))"
  "widthM (computeRepMetrics Num st r) =
     (if length (points r) < 2 then None
      else metersHorizDistance Num st (points r ! 0) (points r ! (length (points r) - 1)))"
  by (simp_all add: computeRepMetrics_def Let_def)

lemma computeRepMetrics_peak_finite:
  assumes "peakM (computeRepMetrics Num st r) = Some v"
  shows "isFinite v"
proof -
  from assms have fin: "isFinite (peakAboveLoop Num st (points r) NegInf)"
    and v: "v = jadd Num (Num NET_HEIGHT_M) (peakAboveLoop Num st (points r) NegInf)"
    by (simp_all add: computeRepMetrics_fields split: if_splits)
  from fin obtain a where "peakAboveLoop Num st (points r) NegInf = Num a"
    by (rule isFinite_cases)
  with v show ?thesis by simp
qed

lemma metersHorizDistance_finite:
  assumes "metersHorizDistance Num st p1 p2 = Some w" and "isFinite (p_x p1)" and "isFinite (p_x p2)"
  shows "isFinite w"
proof -
  from assms(2) obtain u1 where u1: "p_x p1 = Num u1"
    by (rule isFinite_cases)
  from assms(3) obtain u2 where u2: "p_x p2 = Num u2"
    by (rule isFinite_cases)
  from assms(1) obtain p where p: "pixelsPerMeter st = Some p" "\<not> falsy (Some p)"
    and w: "w = jdiv Num (jabs (jsub Num (p_x p2) (p_x p1))) p"
    by (cases "pixelsPerMeter st") (simp_all add: metersHorizDistance_def split: if_splits)
  have "w = jdiv Num (Num \<bar>u2 - u1\<bar>) p"
    by (simp add: w u1 u2 jsub_def)
  with p(2) show ?thesis
    by (cases p) simp_all
qed

lemma computeRepMetrics_width_finite:
  assumes "widthM (computeRepMetrics Num st r) = Some w"
    and "\<forall>q\<in>set (points r). isFinite (p_x q)"
  shows "isFinite w"
proof -
  from assms(1) have long: "\<not> length (points r) < 2"
    and w: "metersHorizDistance Num st (points r ! 0) (points r ! (length (points r) - 1)) = Some w"
    by (simp_all add: computeRepMetrics_fields split: if_splits)
  from long have "0 < length (points r)" "length (points r) - 1 < length (points r)"
    by linarith+
  then have "points r ! 0 \<in> set (points r)" "points r ! (length (points r) - 1) \<in> set (points r)"
    by (simp_all only: nth_mem)
  with assms(2) have "isFinite (p_x (points r ! 0))"
    "isFinite (p_x (points r ! (length (points r) - 1)))"
    by blast+
  with w show ?thesis
    by (rule metersHorizDistance_finite)
qed

lemma computeAllRepMetrics_finite:
  assumes "\<forall>r\<in>set (trails st). \<forall>q\<in>set (points r). isFinite (p_x q)"
  shows "\<forall>r\<in>set (trails (computeAllRepMetrics Num st)).
           (\<forall>v. peakM r = Some v \<longrightarrow> isFinite v) \<and> (\<forall>w. widthM r = Some w \<longrightarrow> isFinite w)"
proof
  fix r'
  assume "r' \<in> set (trails (computeAllRepMetrics Num st))"
  then obtain r where r: "r \<in> set (trails st)" "r' = computeRepMetrics Num st r"
    by (auto simp: computeAllRepMetrics_def)
  from r(1) assms have fin: "\<forall>q\<in>set (points r). isFinite (p_x q)"
    by simp
  show "(\<forall>v. peakM r' = Some v \<longrightarrow> isFinite v) \<and> (\<forall>w. widthM r' = Some w \<longrightarrow> isFinite w)"
    unfolding r(2)
    using computeRepMetrics_peak_finite [of st r] computeRepMetrics_width_finite [OF _ fin, of st]
    by blast
qed



end
